theory Spec2Isabelle
  imports Main
begin

unbundle bit_operations_syntax

section \<open>Python values and exceptions\<close>

text \<open>
  The source is dynamically typed and checks the types of its arguments itself
  (\<^verbatim>\<open>isinstance\<close>). An argument whose type the source checks is a \<open>pyval\<close>: an
  \<^verbatim>\<open>int\<close>, a \<^verbatim>\<open>str\<close>, \<^verbatim>\<open>None\<close>, or \<open>POther\<close>, a value of any other type that is
  neither an \<^verbatim>\<open>int\<close> nor a \<^verbatim>\<open>str\<close> and equal to neither (a list, an object).
  \<^verbatim>\<open>bool\<close> and \<^verbatim>\<open>float\<close>, which Python compares equal to integers, are not represented.
  Strings are lists of characters; Python integers are unbounded, hence \<open>int\<close>.
\<close>

datatype pyval = PInt int | PStr string | PNone | POther

fun is_int :: "pyval \<Rightarrow> bool" where
  "is_int (PInt n) = True"
| "is_int v = False"

fun is_str :: "pyval \<Rightarrow> bool" where
  "is_str (PStr s) = True"
| "is_str v = False"

text \<open>The payload of a value whose type has been checked.\<close>

fun the_int :: "pyval \<Rightarrow> int" where
  "the_int (PInt n) = n"
| "the_int v = 0"

fun the_str :: "pyval \<Rightarrow> string" where
  "the_str (PStr s) = s"
| "the_str v = []"

text \<open>
  An argument that the source tests with \<^verbatim>\<open>isinstance(x, C)\<close>: an instance of \<open>C\<close>, or
  something else.
\<close>

datatype 'a pyarg = Is 'a | Other

text \<open>
  Exceptions are values. An exception carries the message of the source as its format
  string, unformatted, and the values that \<^verbatim>\<open>.format\<close> puts into it, in order.
  \<open>ExternalError\<close> stands for whatever an external collaborator raises (the module
  table of LiteDRAM, the name tracer, the local build, the file system).
\<close>

datatype exn =
    ValueError string "pyval list"
  | TypeError string
  | AttributeError string
  | AssertionError
  | IndexError string
  | ExternalError string

subsection \<open>\<^verbatim>\<open>nmigen.utils.log2_int\<close>\<close>

text \<open>
  \<^verbatim>\<open>int.bit_length\<close> on a natural number: the number of binary digits.
\<close>

fun bit_length :: "nat \<Rightarrow> nat" where
  "bit_length n = (if n = 0 then 0 else Suc (bit_length (n div 2)))"

declare bit_length.simps [simp del]

text \<open>
  \<^verbatim>\<open>log2_int(n, need_pow2)\<close> of the hardware library the source imports:
  \<^verbatim>\<open>
  def log2_int(n, need_pow2=True):
      if n == 0:
          return 0
      r = (n - 1).bit_length()
      if need_pow2 and (1 << r) != n:
          raise ValueError("{} is not a power of 2".format(n))
      return r
  \<close>
  For a negative \<open>n\<close> no power of two equals \<open>n\<close>, so the call raises when
  \<open>need_pow2\<close> holds; \<^verbatim>\<open>bit_length\<close> of a negative integer is that of its absolute
  value.
\<close>

definition log2_int :: "int \<Rightarrow> bool \<Rightarrow> exn + int" where
  "log2_int n need_pow2 =
     (if n = 0 then Inr 0
      else let r = int (bit_length (nat (abs (n - 1))))
           in if need_pow2 \<and> 2 ^ nat r \<noteq> n
              then Inl (ValueError ''{} is not a power of 2'' [PInt n])
              else Inr r)"

section \<open>Configuration: \<^verbatim>\<open>Config\<close>\<close>

text \<open>A configuration that has passed validation; each field holds what was validated.\<close>

text \<open>The field \<^verbatim>\<open>module_name\<close> is written \<open>module_name'\<close>: the plain name is reserved.\<close>

record Config =
  memtype :: string
  rate :: string
  module_name' :: string
  module_bytes :: int
  module_ranks :: int
  input_clk_freq :: int
  user_clk_freq :: int
  input_domain :: string
  user_domain :: string
  user_data_width :: int
  cmd_buffer_depth :: int
  csr_data_width :: int

text \<open>
  \<^verbatim>\<open>Config.__init__\<close>. The keyword arguments are taken in the order of the signature.
  The checks are those of the source, in its order; the first one that fails raises.
  The class is abstract: \<^verbatim>\<open>ECP5Config\<close> and \<^verbatim>\<open>Artix7Config\<close> call this constructor
  first and then check the fields of their own, which the core does not read before
  elaboration.
\<close>

definition Config_init ::
  "pyval \<Rightarrow> pyval \<Rightarrow> pyval \<Rightarrow> pyval \<Rightarrow> pyval \<Rightarrow> pyval \<Rightarrow> pyval \<Rightarrow> pyval \<Rightarrow> pyval \<Rightarrow>
   pyval \<Rightarrow> pyval \<Rightarrow> exn + Config" where
  \<open>Config_init a_memtype a_module_name a_module_bytes a_module_ranks a_input_clk_freq
     a_user_clk_freq a_input_domain a_user_domain a_user_data_width a_cmd_buffer_depth
     a_csr_data_width =
   (if a_memtype \<noteq> PStr ''DDR2'' \<and> a_memtype \<notin> {PStr ''DDR3'', PStr ''DDR4''} then
      Inl (ValueError
        ''Unsupported DRAM type, must be one of "DDR2", "DDR3" or "DDR4", not {!r}''
        [a_memtype])
    else if \<not> is_str a_module_name then
      Inl (ValueError ''Module name must be a string, not {!r}'' [a_module_name])
    else if \<not> is_int a_module_bytes \<or> the_int a_module_bytes \<le> 0 then
      Inl (ValueError ''Number of byte groups must be a positive integer, not {!r}''
        [a_module_bytes])
    else if \<not> is_int a_module_ranks \<or> the_int a_module_ranks \<le> 0 then
      Inl (ValueError ''Number of ranks must be a positive integer, not {!r}''
        [a_module_ranks])
    else if \<not> is_int a_input_clk_freq \<or> the_int a_input_clk_freq \<le> 0 then
      Inl (ValueError ''Input clock frequency must be a positive integer, not {!r}''
        [a_input_clk_freq])
    else if \<not> is_int a_user_clk_freq \<or> the_int a_user_clk_freq \<le> 0 then
      Inl (ValueError ''User clock frequency must be a positive integer, not {!r}''
        [a_user_clk_freq])
    else if \<not> is_str a_input_domain then
      Inl (ValueError ''Input domain name must be a string, not {!r}'' [a_input_domain])
    else if \<not> is_str a_user_domain then
      Inl (ValueError ''User domain name must be a string, not {!r}'' [a_user_domain])
    else if a_user_data_width \<notin> {PInt 8, PInt 16, PInt 32, PInt 64, PInt 128} then
      Inl (ValueError ''User port data width must be one of 8, 16, 32, 64 or 128, not {!r}''
        [a_user_data_width])
    else if \<not> is_int a_cmd_buffer_depth \<or> the_int a_cmd_buffer_depth \<le> 0 then
      Inl (ValueError ''Command buffer depth must be a positive integer, not {!r}''
        [a_cmd_buffer_depth])
    else if a_csr_data_width \<notin> {PInt 8, PInt 16, PInt 32, PInt 64} then
      Inl (ValueError ''CSR data width must be one of 8, 16, 32, or 64, not {!r}''
        [a_csr_data_width])
    else
      Inr \<lparr> memtype = the_str a_memtype,
            rate = (if a_memtype = PStr ''DDR2'' then ''1:2'' else ''1:4''),
            module_name' = the_str a_module_name,
            module_bytes = the_int a_module_bytes,
            module_ranks = the_int a_module_ranks,
            input_clk_freq = the_int a_input_clk_freq,
            user_clk_freq = the_int a_user_clk_freq,
            input_domain = the_str a_input_domain,
            user_domain = the_str a_user_domain,
            user_data_width = the_int a_user_data_width,
            cmd_buffer_depth = the_int a_cmd_buffer_depth,
            csr_data_width = the_int a_csr_data_width \<rparr>)\<close>


subsection \<open>The module table: \<^verbatim>\<open>Config.get_module\<close>\<close>

text \<open>
  What the source reads of a module description of \<^verbatim>\<open>litedram.modules\<close>: its memory
  type, its geometry and its number of banks. The bit counts of a geometry are natural
  numbers.
\<close>

record GeomSettings =
  bankbits :: nat
  rowbits :: nat
  colbits :: nat

record SDRAMModule =
  sdram_memtype :: string
  geom_settings :: GeomSettings
  nbanks :: int

section \<open>Memory maps\<close>

text \<open>
  Modelled from the spec: the class \<^verbatim>\<open>MemoryMap\<close> of \<^verbatim>\<open>thirdparty.nmigen_soc.memory\<close>,
  which the source imports and whose file is not among the sources. A memory map has a
  fixed data width and an address width, and partitions its address range into named,
  non-overlapping resource regions; once frozen it takes no further region. A region is
  kept as its name, its first address and the address after its last.
\<close>

record MemoryMap =
  mm_addr_width :: int
  mm_data_width :: int
  resources :: "(string \<times> int \<times> int) list"
  next_addr :: int
  frozen :: bool

text \<open>
  Modelled from the spec: the constructor \<^verbatim>\<open>MemoryMap(addr_width=, data_width=)\<close>; both
  widths are positive, and the new map is empty and not frozen.
\<close>

definition MemoryMap_init :: "int \<Rightarrow> int \<Rightarrow> exn + MemoryMap" where
  "MemoryMap_init addr_width data_width =
     (if addr_width \<le> 0 then
        Inl (ValueError ''Address width must be a positive integer, not {!r}'' [PInt addr_width])
      else if data_width \<le> 0 then
        Inl (ValueError ''Data width must be a positive integer, not {!r}'' [PInt data_width])
      else
        Inr \<lparr> mm_addr_width = addr_width, mm_data_width = data_width, resources = [],
              next_addr = 0, frozen = False \<rparr>)"

text \<open>Modelled from the spec: \<^verbatim>\<open>MemoryMap.freeze\<close>; it freezes the map.\<close>

definition MemoryMap_freeze :: "MemoryMap \<Rightarrow> MemoryMap" where
  "MemoryMap_freeze m = m\<lparr>frozen := True\<rparr>"

text \<open>Whether the region from \<open>lo\<close> up to \<open>hi\<close> meets a region of the list.\<close>

definition overlaps :: "(string \<times> int \<times> int) list \<Rightarrow> int \<Rightarrow> int \<Rightarrow> bool" where
  "overlaps rs lo hi = list_ex (\<lambda>(n, s, e). s < hi \<and> lo < e) rs"

text \<open>
  Modelled from the spec: \<^verbatim>\<open>MemoryMap.add_resource(name, size=, addr=, extend=)\<close>. A frozen
  map takes no region. The regions are named and do not overlap, so a name the map has
  already and a region that meets another are refused. Without an address the region is
  placed after the last one added. A region that does not fit the address range is
  refused, unless the "extend" mode is asked for, which grows the address width to the
  least one that fits (\<^verbatim>\<open>log2_int\<close> without the power-of-two requirement).
\<close>

definition MemoryMap_add_resource ::
  "MemoryMap \<Rightarrow> string \<Rightarrow> int \<Rightarrow> int option \<Rightarrow> bool \<Rightarrow> exn + MemoryMap" where
  "MemoryMap_add_resource m res_name size' addr extend' =
     (if frozen m then
        Inl (ValueError ''Memory map has been frozen. Cannot add resource {!r}'' [PStr res_name])
      else if res_name \<in> fst ` set (resources m) then
        Inl (ValueError ''Resource {!r} is already added'' [PStr res_name])
      else if addr \<noteq> None \<and> the addr < 0 then
        Inl (ValueError ''Address must be a non-negative integer, not {!r}'' [PInt (the addr)])
      else if size' < 0 then
        Inl (ValueError ''Size must be a non-negative integer, not {!r}'' [PInt size'])
      else
        let a = (case addr of None \<Rightarrow> next_addr m | Some a \<Rightarrow> a) in
        if a + size' > 2 ^ nat (mm_addr_width m) \<and> \<not> extend' then
          Inl (ValueError ''Address range {:#x}..{:#x} out of bounds for memory map''
                 [PInt a, PInt (a + size')])
        else
          (case (if a + size' > 2 ^ nat (mm_addr_width m) then log2_int (a + size') False
                else Inr (mm_addr_width m)) of
            Inl e \<Rightarrow> Inl e
          | Inr w \<Rightarrow>
              if overlaps (resources m) a (a + size') then
                Inl (ValueError ''Address range {:#x}..{:#x} overlaps with another resource''
                       [PInt a, PInt (a + size')])
              else
                Inr (m\<lparr> mm_addr_width := w,
                        resources := resources m @ [(res_name, a, a + size')],
                        next_addr := a + size' \<rparr>)))"

section \<open>The native port: \<^verbatim>\<open>NativePort\<close>\<close>

text \<open>
  The attributes of a native port; \<open>np_map\<close> is \<^verbatim>\<open>_map\<close>. The signals of the record
  layout (\<^verbatim>\<open>cmd\<close>, \<^verbatim>\<open>w\<close>, \<^verbatim>\<open>r\<close>) carry no state of the port and are left out.
\<close>

record NativePort =
  np_addr_width :: int
  np_data_width :: int
  np_granularity :: int
  np_map :: "MemoryMap option"

text \<open>
  \<^verbatim>\<open>NativePort.__init__\<close>. In \<^verbatim>\<open>data_width & data_width - 1\<close> the subtraction binds
  tighter than the conjunction.
\<close>

definition NativePort_init :: "pyval \<Rightarrow> pyval \<Rightarrow> exn + NativePort" where
  "NativePort_init addr_width data_width =
     (if \<not> is_int addr_width \<or> the_int addr_width \<le> 0 then
        Inl (ValueError ''Address width must be a positive integer, not {!r}'' [addr_width])
      else if \<not> is_int data_width \<or> the_int data_width \<le> 0
              \<or> (the_int data_width AND (the_int data_width - 1)) \<noteq> 0 then
        Inl (ValueError ''Data width must be a positive power of two integer, not {!r}''
               [data_width])
      else
        Inr \<lparr> np_addr_width = the_int addr_width, np_data_width = the_int data_width,
              np_granularity = 8, np_map = None \<rparr>)"

text \<open>The getter of \<^verbatim>\<open>NativePort.memory_map\<close>.\<close>

definition NativePort_memory_map :: "NativePort \<Rightarrow> exn + MemoryMap" where
  "NativePort_memory_map port =
     (case np_map port of
        None \<Rightarrow> Inl (AttributeError ''Native port {!r} does not have a memory map'')
      | Some m \<Rightarrow> Inr m)"

text \<open>
  The setter of \<^verbatim>\<open>NativePort.memory_map\<close>. The map that is stored is the argument,
  frozen.
\<close>

definition NativePort_set_memory_map :: "NativePort \<Rightarrow> MemoryMap pyarg \<Rightarrow> exn + NativePort" where
  "NativePort_set_memory_map port arg =
     (case arg of
        Other \<Rightarrow> Inl (TypeError ''Memory map must be an instance of MemoryMap, not {!r}'')
      | Is memory_map \<Rightarrow>
          if mm_data_width memory_map \<noteq> 8 then
            Inl (ValueError
              ''Memory map has data width {}, which is not the same as native port granularity {}''
              [PInt (mm_data_width memory_map), PInt 8])
          else
            (case log2_int (np_data_width port div 8) True of
              Inl e \<Rightarrow> Inl e
            | Inr granularity_bits \<Rightarrow>
                if mm_addr_width memory_map \<noteq> max 1 (np_addr_width port + granularity_bits) then
                  Inl (ValueError
                    ''Memory map has address width {}, which is not the same as native port address width {} ({} address bits + {} granularity bits)''
                    [PInt (mm_addr_width memory_map),
                     PInt (np_addr_width port + granularity_bits),
                     PInt (np_addr_width port), PInt granularity_bits])
                else
                  Inr (port\<lparr>np_map := Some (MemoryMap_freeze memory_map)\<rparr>)))"

section \<open>The control bus\<close>

text \<open>
  Modelled from the spec: the class \<^verbatim>\<open>Interface\<close> of \<^verbatim>\<open>thirdparty.nmigen_soc.wishbone\<close>,
  whose file is not among the sources. The control bus has an address width, a data
  width and a granularity, and optionally owns a memory map.
\<close>

record Interface =
  wb_addr_width :: int
  wb_data_width :: int
  wb_granularity :: int
  wb_map :: "MemoryMap option"

text \<open>
  Modelled from the spec: the constructor of the control bus. Its address width is not
  negative, its data width and its granularity are among 8, 16, 32 and 64, and the
  granularity is at most the data width.
\<close>

definition Interface_init :: "int \<Rightarrow> int \<Rightarrow> int \<Rightarrow> exn + Interface" where
  "Interface_init addr_width data_width granularity =
     (if addr_width < 0 then
        Inl (ValueError ''Address width must be a non-negative integer, not {!r}''
               [PInt addr_width])
      else if data_width \<notin> {8, 16, 32, 64} then
        Inl (ValueError ''Data width must be one of 8, 16, 32, 64, not {!r}'' [PInt data_width])
      else if granularity \<notin> {8, 16, 32, 64} then
        Inl (ValueError ''Granularity must be one of 8, 16, 32, 64, not {!r}''
               [PInt granularity])
      else if granularity > data_width then
        Inl (ValueError ''Granularity {} may not be greater than data width {}''
               [PInt granularity, PInt data_width])
      else
        Inr \<lparr> wb_addr_width = addr_width, wb_data_width = data_width,
              wb_granularity = granularity, wb_map = None \<rparr>)"

text \<open>
  Modelled from the spec: attaching a memory map to the control bus, the dimension
  check of the native port with the granularity of the bus in the place of 8.
\<close>

definition Interface_set_memory_map :: "Interface \<Rightarrow> MemoryMap pyarg \<Rightarrow> exn + Interface" where
  "Interface_set_memory_map bus arg =
     (case arg of
        Other \<Rightarrow> Inl (TypeError ''Memory map must be an instance of MemoryMap, not {!r}'')
      | Is memory_map \<Rightarrow>
          if mm_data_width memory_map \<noteq> wb_granularity bus then
            Inl (ValueError
              ''Memory map has data width {}, which is not the same as bus interface granularity {}''
              [PInt (mm_data_width memory_map), PInt (wb_granularity bus)])
          else
            (case log2_int (wb_data_width bus div wb_granularity bus) True of
              Inl e \<Rightarrow> Inl e
            | Inr granularity_bits \<Rightarrow>
                if mm_addr_width memory_map \<noteq> max 1 (wb_addr_width bus + granularity_bits) then
                  Inl (ValueError
                    ''Memory map has address width {}, which is not the same as bus interface address width {} ({} address bits + {} granularity bits)''
                    [PInt (mm_addr_width memory_map),
                     PInt (wb_addr_width bus + granularity_bits),
                     PInt (wb_addr_width bus), PInt granularity_bits])
                else
                  Inr (bus\<lparr>wb_map := Some (MemoryMap_freeze memory_map)\<rparr>)))"


section \<open>The core: \<^verbatim>\<open>Core\<close>\<close>

text \<open>
  The pins requested from the platform, as the name and the number of their resource;
  the core only keeps them.
\<close>

datatype Pins = Pins string nat

text \<open>
  The attributes of a core; \<open>priv_ctrl_bus\<close> is \<^verbatim>\<open>_ctrl_bus\<close>, \<open>priv_pins\<close> is
  \<^verbatim>\<open>_pins\<close>, and \<open>size'\<close> is \<^verbatim>\<open>size\<close>.
\<close>

record Core =
  config :: Config
  name :: string
  size' :: int
  user_port :: NativePort
  priv_ctrl_bus :: "Interface option"
  priv_pins :: "Pins option"

text \<open>
  A build plan (\<^verbatim>\<open>nmigen.build.run.BuildPlan\<close>): the name of its script and its files,
  each a name and a content, in the order they were added. The products of a build
  (\<^verbatim>\<open>BuildProducts\<close>) map a file name to its text.
\<close>

record BuildPlan =
  script :: string
  files :: "(string \<times> string) list"

type_synonym BuildProducts = "string \<rightharpoonup> string"

text \<open>The two file templates of \<^verbatim>\<open>Builder.file_templates\<close>, in the order of the dictionary.\<close>

datatype template = BuildScript | ConfigYml

text \<open>
  What the source gets from outside:
  \<^item> \<open>litedram_modules\<close>: the module table of LiteDRAM, \<^verbatim>\<open>getattr(litedram.modules,
    module_name)(clk_freq=, rate=)\<close>, which returns a module description or raises;
  \<^item> \<open>get_var_name\<close>: \<^verbatim>\<open>tracer.get_var_name\<close>, the name of the variable the core is
    assigned to, or the error that none was found;
  \<^item> \<open>render_content\<close>: the text jinja2 renders from the content of a file template (the
    script with its commands, the YAML configuration) for a core and the \<^verbatim>\<open>sim\<close> flag;
  \<^item> \<open>execute_local\<close>: \<^verbatim>\<open>BuildPlan.execute_local(build_dir)\<close>, which runs the script
    and returns the products or raises;
  \<^item> \<open>csv_reader\<close>: the rows \<^verbatim>\<open>csv.reader(lines, delimiter=",")\<close> yields.
\<close>

record Env =
  litedram_modules :: "string \<Rightarrow> int \<Rightarrow> string \<Rightarrow> exn + SDRAMModule"
  get_var_name :: "exn + string"
  render_content :: "template \<Rightarrow> Core \<Rightarrow> bool \<Rightarrow> string"
  execute_local :: "BuildPlan \<Rightarrow> string \<Rightarrow> exn + BuildProducts"
  csv_reader :: "string list \<Rightarrow> string list list"

text \<open>
  \<^verbatim>\<open>Config.get_module\<close>. The assertion is a branch: it raises when the memory type of
  the module is not the configured one.
\<close>

definition get_module :: "Env \<Rightarrow> Config \<Rightarrow> exn + SDRAMModule" where
  "get_module env cfg =
     (case litedram_modules env (module_name' cfg) (user_clk_freq cfg) (rate cfg) of
        Inl e \<Rightarrow> Inl e
      | Inr module \<Rightarrow>
          if sdram_memtype module = memtype cfg then Inr module else Inl AssertionError)"

text \<open>
  \<^verbatim>\<open>Core.__init__\<close>. \<^verbatim>\<open>name or tracer.get_var_name(...)\<close> takes the traced name when the
  name is \<^verbatim>\<open>None\<close> or empty. The calls of \<^verbatim>\<open>log2_int\<close> are made in the order of the
  source, and each may raise.
\<close>

definition Core_init :: "Env \<Rightarrow> Config pyarg \<Rightarrow> Pins option \<Rightarrow> pyval \<Rightarrow> exn + Core" where
  "Core_init env config_arg pins name_arg =
     (case config_arg of
        Other \<Rightarrow> Inl (TypeError ''Config must be an instance of litedram.Config, not {!r}'')
      | Is cfg \<Rightarrow>
          if name_arg \<noteq> PNone \<and> \<not> is_str name_arg then
            Inl (TypeError ''Name must be a string, not {!r}'')
          else
            (case (if name_arg = PNone \<or> name_arg = PStr [] then get_var_name env
                   else Inr (the_str name_arg)) of
               Inl e \<Rightarrow> Inl e
             | Inr nm \<Rightarrow>
            (case get_module env cfg of
               Inl e \<Rightarrow> Inl e
             | Inr module \<Rightarrow>
            let sz = module_bytes cfg
                       * 2 ^ (bankbits (geom_settings module)
                              + rowbits (geom_settings module)
                              + colbits (geom_settings module)) in
            (case log2_int (nbanks module) True of
               Inl e \<Rightarrow> Inl e
             | Inr log2_nbanks \<Rightarrow>
            (case log2_int (module_ranks cfg) True of
               Inl e \<Rightarrow> Inl e
             | Inr log2_ranks \<Rightarrow>
            let user_addr_width = int (rowbits (geom_settings module))
                                + int (colbits (geom_settings module))
                                + log2_nbanks
                                + max log2_ranks 1 in
            (case log2_int (user_data_width cfg div 8) True of
               Inl e \<Rightarrow> Inl e
             | Inr log2_width \<Rightarrow>
            (case NativePort_init (PInt (user_addr_width - log2_width))
                    (PInt (user_data_width cfg)) of
               Inl e \<Rightarrow> Inl e
             | Inr port \<Rightarrow>
            (case MemoryMap_init user_addr_width 8 of
               Inl e \<Rightarrow> Inl e
             | Inr user_map \<Rightarrow>
            (case MemoryMap_add_resource user_map ''user_port_0'' sz None False of
               Inl e \<Rightarrow> Inl e
             | Inr user_map' \<Rightarrow>
            (case NativePort_set_memory_map port (Is user_map') of
               Inl e \<Rightarrow> Inl e
             | Inr port' \<Rightarrow>
                 Inr \<lparr> config = cfg, name = nm, size' = sz, user_port = port',
                       priv_ctrl_bus = None, priv_pins = pins \<rparr>))))))))))"

text \<open>The getter of \<^verbatim>\<open>Core.ctrl_bus\<close>.\<close>

definition Core_ctrl_bus :: "Core \<Rightarrow> exn + Interface" where
  "Core_ctrl_bus core =
     (case priv_ctrl_bus core of
        None \<Rightarrow>
          Inl (AttributeError
            ''Control bus memory map has not been populated. Core.build(do_build=True) must be called before accessing Core.ctrl_bus'')
      | Some bus \<Rightarrow> Inr bus)"

subsection \<open>Reading the register listing\<close>

text \<open>
  \<^verbatim>\<open>int(s, base)\<close> for base 10 and base 16 on a string of characters below 256:
  whitespace is stripped at both ends, a sign may come first, base 16 may have the
  prefix \<^verbatim>\<open>0x\<close> or \<^verbatim>\<open>0X\<close>, and single underscores may separate digits (one may follow the
  prefix). \<open>None\<close> is the \<^verbatim>\<open>ValueError\<close> of an invalid literal.
\<close>

definition py_isspace :: "char \<Rightarrow> bool" where
  "py_isspace c =
     (of_char c \<in> {9 :: nat, 10, 11, 12, 13, 28, 29, 30, 31, 32, 133, 160})"

definition digit_value :: "char \<Rightarrow> nat" where
  "digit_value c =
     (let k = (of_char c :: nat) in
      if 48 \<le> k \<and> k \<le> 57 then k - 48
      else if 97 \<le> k \<and> k \<le> 122 then k - 87
      else if 65 \<le> k \<and> k \<le> 90 then k - 55
      else 37)"

fun py_digits :: "nat \<Rightarrow> nat \<Rightarrow> string \<Rightarrow> nat option" where
  "py_digits b acc [] = Some acc"
| "py_digits b acc [c] =
     (if digit_value c < b then Some (acc * b + digit_value c) else None)"
| "py_digits b acc (c # d # ds) =
     (if c = CHR ''_'' then
        (if digit_value d < b then py_digits b (acc * b + digit_value d) ds else None)
      else if digit_value c < b then py_digits b (acc * b + digit_value c) (d # ds)
      else None)"

definition py_strip :: "string \<Rightarrow> string" where
  "py_strip s = rev (dropWhile py_isspace (rev (dropWhile py_isspace s)))"

definition py_int :: "string \<Rightarrow> nat \<Rightarrow> int option" where
  "py_int s base =
     (let t = py_strip s;
          negative = (t \<noteq> [] \<and> hd t = CHR ''-'');
          t1 = (if t \<noteq> [] \<and> (hd t = CHR ''+'' \<or> hd t = CHR ''-'') then tl t else t);
          t2 = (if base = 16 \<and> length t1 \<ge> 2 \<and> hd t1 = CHR ''0''
                   \<and> (t1 ! 1 = CHR ''x'' \<or> t1 ! 1 = CHR ''X'')
                then (let r = drop 2 t1 in if r \<noteq> [] \<and> hd r = CHR ''_'' then tl r else r)
                else t1)
      in case t2 of
           [] \<Rightarrow> None
         | c # cs \<Rightarrow>
             if digit_value c < base then
               map_option (\<lambda>n. if negative then - int n else int n)
                 (py_digits base (digit_value c) cs)
             else None)"

text \<open>\<^verbatim>\<open>str.split(sep)\<close> for a separator of one character.\<close>

fun split_on :: "char \<Rightarrow> string \<Rightarrow> string list" where
  "split_on sep [] = [[]]"
| "split_on sep (c # cs) =
     (if c = sep then [] # split_on sep cs
      else (case split_on sep cs of
              [] \<Rightarrow> [[c]]
            | f # fs \<Rightarrow> (c # f) # fs))"

text \<open>
  What \<^verbatim>\<open>csv.reader\<close> yields for lines that hold neither a quote character nor a
  carriage return: an empty line is a row of no field, any other line is cut at its
  commas.
\<close>

definition plain_csv_reader :: "string list \<Rightarrow> string list list" where
  "plain_csv_reader lines = map (\<lambda>l. if l = [] then [] else split_on CHR '','' l) lines"

text \<open>
  The loop of \<^verbatim>\<open>Core._populate_ctrl_map\<close> over the rows. \<^verbatim>\<open>row[0][0]\<close> raises on an
  empty first field; unpacking a row into five names raises unless it has five fields;
  the arguments of \<^verbatim>\<open>add_resource\<close> are evaluated from left to right, and
  \<^verbatim>\<open>int(size, 10) * csr_data_width // ctrl_map.data_width\<close> multiplies before it divides.
\<close>

fun populate_rows :: "int \<Rightarrow> MemoryMap \<Rightarrow> string list list \<Rightarrow> exn + MemoryMap" where
  "populate_rows cdw ctrl_map [] = Inr ctrl_map"
| "populate_rows cdw ctrl_map (row # rows) =
     (if row = [] then populate_rows cdw ctrl_map rows
      else if hd row = [] then Inl (IndexError ''string index out of range'')
      else if hd (hd row) = CHR ''#'' then populate_rows cdw ctrl_map rows
      else
        (case row of
           [res_type, res_name, addr, sz, attrs] \<Rightarrow>
             if res_type = ''csr_register'' then
               (case py_int addr 16 of
                  None \<Rightarrow>
                    Inl (ValueError ''invalid literal for int() with base 16: {!r}'' [PStr addr])
                | Some a \<Rightarrow>
               (case py_int sz 10 of
                  None \<Rightarrow>
                    Inl (ValueError ''invalid literal for int() with base 10: {!r}'' [PStr sz])
                | Some n \<Rightarrow>
               (case MemoryMap_add_resource ctrl_map res_name
                       (n * cdw div mm_data_width ctrl_map) (Some a) True of
                  Inl e \<Rightarrow> Inl e
                | Inr ctrl_map' \<Rightarrow> populate_rows cdw ctrl_map' rows)))
             else populate_rows cdw ctrl_map rows
         | _ \<Rightarrow>
             if length row < 5 then
               Inl (ValueError ''not enough values to unpack (expected 5, got {})''
                      [PInt (int (length row))])
             else Inl (ValueError ''too many values to unpack (expected 5)'' [])))"

text \<open>\<^verbatim>\<open>BuildProducts.get(filename, mode="t")\<close>; a file that is not there raises.\<close>

definition BuildProducts_get :: "BuildProducts \<Rightarrow> string \<Rightarrow> exn + string" where
  "BuildProducts_get products filename =
     (case products filename of
        None \<Rightarrow> Inl (ExternalError ''FileNotFoundError'')
      | Some t \<Rightarrow> Inr t)"

text \<open>
  \<^verbatim>\<open>Core._populate_ctrl_map\<close>. It returns nothing; the result is the exception, if any,
  and the core as the call leaves it. \<^verbatim>\<open>self._ctrl_bus\<close> is assigned before the memory
  map is attached to it, so the core that an error of the attachment leaves behind has
  the bus already.
\<close>

definition Core_populate_ctrl_map ::
  "Env \<Rightarrow> Core \<Rightarrow> BuildProducts pyarg \<Rightarrow> (exn + unit) \<times> Core" where
  "Core_populate_ctrl_map env core build_products =
     (case build_products of
        Other \<Rightarrow>
          (Inl (TypeError ''Build products must be an instance of BuildProducts, not {!r}''),
           core)
      | Is products \<Rightarrow>
     (case MemoryMap_init 1 8 of
        Inl e \<Rightarrow> (Inl e, core)
      | Inr ctrl_map \<Rightarrow>
     (case BuildProducts_get products (name core @ ''_csr.csv'') of
        Inl e \<Rightarrow> (Inl e, core)
      | Inr csr_csv \<Rightarrow>
     (case populate_rows (csr_data_width (config core)) ctrl_map
             (csv_reader env (split_on CHR 0x0A csr_csv)) of
        Inl e \<Rightarrow> (Inl e, core)
      | Inr ctrl_map' \<Rightarrow>
     (case log2_int (csr_data_width (config core) div mm_data_width ctrl_map') True of
        Inl e \<Rightarrow> (Inl e, core)
      | Inr granularity_bits \<Rightarrow>
     (case Interface_init (mm_addr_width ctrl_map' - granularity_bits)
             (csr_data_width (config core)) (mm_data_width ctrl_map') of
        Inl e \<Rightarrow> (Inl e, core)
      | Inr bus \<Rightarrow>
     (case Interface_set_memory_map bus (Is ctrl_map') of
        Inl e \<Rightarrow> (Inl e, core\<lparr>priv_ctrl_bus := Some bus\<rparr>)
      | Inr bus' \<Rightarrow> (Inr (), core\<lparr>priv_ctrl_bus := Some bus'\<rparr>))))))))"

section \<open>The builder: \<^verbatim>\<open>Builder\<close>\<close>

record Builder =
  namespace :: "string set"

text \<open>\<^verbatim>\<open>Builder.__init__\<close>.\<close>

definition Builder_init :: Builder where
  "Builder_init = \<lparr> namespace = {} \<rparr>"

text \<open>
  \<^verbatim>\<open>BuildPlan.add_file\<close> asserts that the plan has no file of that name yet.
\<close>

definition BuildPlan_add_file :: "BuildPlan \<Rightarrow> string \<Rightarrow> string \<Rightarrow> exn + BuildPlan" where
  "BuildPlan_add_file plan filename content =
     (if filename \<in> fst ` set (files plan) then Inl AssertionError
      else Inr (plan\<lparr>files := files plan @ [(filename, content)]\<rparr>))"

text \<open>
  The names of the two files: the templates \<^verbatim>\<open>build_{{top.name}}.sh\<close> and
  \<^verbatim>\<open>{{top.name}}_config.yml\<close> with the name of the core put in.
\<close>

fun render_filename :: "template \<Rightarrow> Core \<Rightarrow> string" where
  "render_filename BuildScript core = ''build_'' @ name core @ ''.sh''"
| "render_filename ConfigYml core = name core @ ''_config.yml''"

text \<open>
  \<^verbatim>\<open>Builder.prepare\<close>. The result is the plan or the exception, and the builder as the
  call leaves it: the name is added to the namespace before anything is rendered.
\<close>

definition Builder_prepare ::
  "Env \<Rightarrow> Builder \<Rightarrow> Core pyarg \<Rightarrow> bool \<Rightarrow> bool \<Rightarrow> (exn + BuildPlan) \<times> Builder" where
  "Builder_prepare env builder core_arg sim name_force =
     (case core_arg of
        Other \<Rightarrow>
          (Inl (TypeError ''LiteDRAM core must be an instance of litedram.Core, not {!r}''),
           builder)
      | Is core \<Rightarrow>
          if name core \<in> namespace builder \<and> \<not> name_force then
            (Inl (ValueError
               ''LiteDRAM core name '{}' has already been used for a previous build. Building this instance may overwrite previous build products. Passing `name_force=True` will disable this check''
               [PStr (name core)]),
             builder)
          else
            let builder' = builder\<lparr>namespace := insert (name core) (namespace builder)\<rparr>;
                plan = \<lparr> script = ''build_'' @ name core, files = [] \<rparr>
            in
            (case BuildPlan_add_file plan (render_filename BuildScript core)
                    (render_content env BuildScript core sim) of
               Inl e \<Rightarrow> (Inl e, builder')
             | Inr plan1 \<Rightarrow>
            (case BuildPlan_add_file plan1 (render_filename ConfigYml core)
                    (render_content env ConfigYml core sim) of
               Inl e \<Rightarrow> (Inl e, builder')
             | Inr plan2 \<Rightarrow> (Inr plan2, builder'))))"

text \<open>What \<^verbatim>\<open>Core.build\<close> returns: the plan, or the products of its local execution.\<close>

datatype build_result = Plan BuildPlan | Products BuildProducts

text \<open>
  \<^verbatim>\<open>Core.build\<close>. The result is what the call returns or raises, with the core and the
  builder as the call leaves them.
\<close>

definition Core_build ::
  "Env \<Rightarrow> Core \<Rightarrow> Builder pyarg \<Rightarrow> bool \<Rightarrow> string \<Rightarrow> bool \<Rightarrow> bool \<Rightarrow>
   (exn + build_result) \<times> Core \<times> Builder pyarg" where
  "Core_build env core builder_arg do_build build_dir sim name_force =
     (case builder_arg of
        Other \<Rightarrow>
          (Inl (TypeError ''Builder must be an instance of litedram.Builder, not {!r}''),
           core, Other)
      | Is builder \<Rightarrow>
          (case Builder_prepare env builder (Is core) sim name_force of
             (Inl e, builder') \<Rightarrow> (Inl e, core, Is builder')
           | (Inr plan, builder') \<Rightarrow>
               if \<not> do_build then (Inr (Plan plan), core, Is builder')
               else
                 (case execute_local env plan build_dir of
                    Inl e \<Rightarrow> (Inl e, core, Is builder')
                  | Inr products \<Rightarrow>
                      (case Core_populate_ctrl_map env core (Is products) of
                         (Inl e, core') \<Rightarrow> (Inl e, core', Is builder')
                       | (Inr u, core') \<Rightarrow> (Inr (Products products), core', Is builder')))))"

section \<open>The name conflict and the missing control bus\<close>

text \<open>
  The error of \<^verbatim>\<open>Builder.prepare\<close> on a name that is taken, and the error of the getter of
  \<^verbatim>\<open>Core.ctrl_bus\<close> on a core without a control bus, as the source raises them.
\<close>

definition name_conflict :: "string \<Rightarrow> exn" where
  "name_conflict n =
     ValueError
       ''LiteDRAM core name '{}' has already been used for a previous build. Building this instance may overwrite previous build products. Passing `name_force=True` will disable this check''
       [PStr n]"

definition not_ready :: exn where
  "not_ready =
     AttributeError
       ''Control bus memory map has not been populated. Core.build(do_build=True) must be called before accessing Core.ctrl_bus''"

section \<open>The specification's words\<close>



text \<open>
  The rows of a listing that are mapped, as the specification says it with the tag of
  the source: the data rows whose kind is \<^verbatim>\<open>csr_register\<close>. A comment row begins with
  \<^verbatim>\<open>#\<close>, so it is none of them. For such a row, the resource it stands for: its name, its
  address read in base 16, and the end of its region, the address plus its size read in
  base 10 scaled by the ratio of the control data width to the map data width.
\<close>

definition register_rows :: "string list list \<Rightarrow> string list list" where
  "register_rows rows = filter (\<lambda>row. row \<noteq> [] \<and> hd row = ''csr_register'') rows"





section \<open>An example design\<close>

text \<open>
  The scenario of the specification: a DDR3 module of one byte group and one rank with
  3 bank bits, 13 row bits and 10 column bits, a control bus of 32 bits, and a register
  listing as the generator writes it.
\<close>

definition example_module :: SDRAMModule where
  "example_module =
     \<lparr> sdram_memtype = ''DDR3'',
       geom_settings = \<lparr> bankbits = 3, rowbits = 13, colbits = 10 \<rparr>,
       nbanks = 8 \<rparr>"

definition example_listing :: string where
  "example_listing =
     ''# Auto-generated by LiteX'' @ [CHR 0x0A] @
     ''csr_base,ctrl,0x00000000,,'' @ [CHR 0x0A] @
     ''csr_register,ctrl_status,0x10,1,ro'' @ [CHR 0x0A] @
     ''constant,config_csr_data_width,32,,'' @ [CHR 0x0A]"

definition example_env :: Env where
  "example_env =
     \<lparr> litedram_modules =
         (\<lambda>module_name clk_freq rate.
            if module_name = ''MT41K64M16'' then Inr example_module
            else Inl (AttributeError ''module litedram.modules has no attribute {!r}'')),
       get_var_name = Inr ''dram'',
       render_content =
         (\<lambda>template core sim. ''# Automatically generated by LambdaSoC. Do not edit.''),
       execute_local = (\<lambda>plan build_dir. Inr [''dram_csr.csv'' \<mapsto> example_listing]),
       csv_reader = plain_csv_reader \<rparr>"

definition example_config :: Config where
  "example_config =
     \<lparr> memtype = ''DDR3'', rate = ''1:4'', module_name' = ''MT41K64M16'',
       module_bytes = 1, module_ranks = 1, input_clk_freq = 100000000,
       user_clk_freq = 70000000, input_domain = ''litedram_input'',
       user_domain = ''litedram_user'', user_data_width = 128, cmd_buffer_depth = 16,
       csr_data_width = 32 \<rparr>"

text \<open>The core that \<^verbatim>\<open>Core(example_config)\<close> builds, assigned to a variable \<^verbatim>\<open>dram\<close>.\<close>

definition example_core :: Core where
  "example_core =
     \<lparr> config = example_config, name = ''dram'', size' = 67108864,
       user_port =
         \<lparr> np_addr_width = 23, np_data_width = 128, np_granularity = 8,
           np_map = Some \<lparr> mm_addr_width = 27, mm_data_width = 8,
                             resources = [(''user_port_0'', 0, 67108864)],
                             next_addr = 67108864, frozen = True \<rparr> \<rparr>,
       priv_ctrl_bus = None, priv_pins = None \<rparr>"


section \<open>Arithmetic of \<^verbatim>\<open>log2_int\<close>\<close>

lemma bit_length_pos: "0 < n \<Longrightarrow> 0 < bit_length n"
  by (subst bit_length.simps) simp

lemma bit_length_pow2: "bit_length (2 ^ k - Suc 0) = k"
proof (induction k)
  case 0
  show ?case by (simp add: bit_length.simps)
next
  case (Suc k)
  have a: "(1::nat) \<le> 2 ^ k" by simp
  have b: "(2 * 2 ^ k - Suc 0 :: nat) div 2 = 2 ^ k - Suc 0" using a by arith
  have c: "(2 * 2 ^ k - Suc 0 :: nat) \<noteq> 0" using a by arith
  show ?case using Suc b c by (subst bit_length.simps) simp
qed

lemma log2_int_pow2: "log2_int (2 ^ k) b = Inr (int k)"
proof -
  have "nat (abs ((2::int) ^ k - 1)) = 2 ^ k - Suc 0"
    by (simp add: nat_diff_distrib' nat_power_eq)
  then show ?thesis by (simp add: log2_int_def bit_length_pow2 Let_def)
qed


section \<open>Validation of the configuration\<close>


lemma example_config_valid:
  "Config_init (PStr ''DDR3'') (PStr ''MT41K64M16'') (PInt 1) (PInt 1) (PInt 100000000)
     (PInt 70000000) (PStr ''litedram_input'') (PStr ''litedram_user'') (PInt 128) (PInt 16)
     (PInt 32) = Inr example_config"
  by (simp add: Config_init_def example_config_def)



section \<open>The module table\<close>

text \<open>
  C9. When the module table returns a module description, \<^verbatim>\<open>Config.get_module\<close> raises
  the assertion error if the memory type of the description differs from the
  configured one, and returns the description unchanged otherwise.
\<close>

theorem get_module_memtype:
  assumes "litedram_modules env (module_name' cfg) (user_clk_freq cfg) (rate cfg) = Inr module"
  shows "get_module env cfg =
           (if sdram_memtype module = memtype cfg then Inr module else Inl AssertionError)"
  using assms by (simp add: get_module_def)

theorem get_module_memtype_witness:
  "get_module example_env example_config = Inr example_module
   \<and> get_module example_env (example_config\<lparr>memtype := ''DDR2''\<rparr>) = Inl AssertionError"
proof -
  have a: "litedram_modules example_env (module_name' example_config)
             (user_clk_freq example_config) (rate example_config) = Inr example_module"
    by (simp add: example_env_def example_config_def)
  have b: "litedram_modules example_env (module_name' (example_config\<lparr>memtype := ''DDR2''\<rparr>))
             (user_clk_freq (example_config\<lparr>memtype := ''DDR2''\<rparr>))
             (rate (example_config\<lparr>memtype := ''DDR2''\<rparr>)) = Inr example_module"
    by (simp add: example_env_def example_config_def)
  show ?thesis
    using get_module_memtype [OF a] get_module_memtype [OF b]
    by (simp add: example_module_def example_config_def)
qed

section \<open>The memory map of the native port\<close>





text \<open>
  C6, as stated, fails: the setter does not look at the map the port has already. A
  port of address width 4 and data width 16 takes a first map of address width 5, and
  then a second, different one of the same dimensions, which replaces the first.
\<close>

theorem NativePort_second_attachment_counterexample:
  "NativePort_set_memory_map
       \<lparr> np_addr_width = 4, np_data_width = 16, np_granularity = 8, np_map = None \<rparr>
       (Is \<lparr> mm_addr_width = 5, mm_data_width = 8, resources = [], next_addr = 0,
              frozen = False \<rparr>)
     = Inr \<lparr> np_addr_width = 4, np_data_width = 16, np_granularity = 8,
             np_map = Some \<lparr> mm_addr_width = 5, mm_data_width = 8, resources = [],
                               next_addr = 0, frozen = True \<rparr> \<rparr>
   \<and> NativePort_set_memory_map
       \<lparr> np_addr_width = 4, np_data_width = 16, np_granularity = 8,
         np_map = Some \<lparr> mm_addr_width = 5, mm_data_width = 8, resources = [],
                           next_addr = 0, frozen = True \<rparr> \<rparr>
       (Is \<lparr> mm_addr_width = 5, mm_data_width = 8, resources = [(''buffer'', 0, 32)],
              next_addr = 32, frozen = False \<rparr>)
     = Inr \<lparr> np_addr_width = 4, np_data_width = 16, np_granularity = 8,
             np_map = Some \<lparr> mm_addr_width = 5, mm_data_width = 8,
                               resources = [(''buffer'', 0, 32)], next_addr = 32,
                               frozen = True \<rparr> \<rparr>"
proof -
  have l: "log2_int 2 True = Inr 1"
    using log2_int_pow2 [of 1 True] by simp
  show ?thesis
    by (simp add: NativePort_set_memory_map_def MemoryMap_freeze_def l)
qed

text \<open>
  C6, amended. After a memory map has been attached to a port, the port holds that
  map, frozen, and a later attachment to the same port is decided as it would be on the
  port without a map: it raises for the same arguments, and for a \<^verbatim>\<open>MemoryMap\<close> of
  matching dimensions it succeeds and replaces the map the port held.
\<close>

theorem NativePort_attachment_replaces:
  assumes "NativePort_set_memory_map port (Is m) = Inr port'"
  shows "NativePort_memory_map port' = Inr (m\<lparr>frozen := True\<rparr>)
       \<and> NativePort_set_memory_map port' arg = NativePort_set_memory_map port arg"
proof -
  from assms have p: "port' = port\<lparr>np_map := Some (m\<lparr>frozen := True\<rparr>)\<rparr>"
    by (auto simp: NativePort_set_memory_map_def MemoryMap_freeze_def
             split: if_splits sum.splits)
  show ?thesis
    by (cases arg)
       (simp_all add: p NativePort_memory_map_def NativePort_set_memory_map_def
          split: sum.splits)
qed

theorem NativePort_attachment_replaces_witness:
  "NativePort_memory_map
       \<lparr> np_addr_width = 4, np_data_width = 16, np_granularity = 8,
         np_map = Some \<lparr> mm_addr_width = 5, mm_data_width = 8, resources = [],
                           next_addr = 0, frozen = True \<rparr> \<rparr>
     = Inr \<lparr> mm_addr_width = 5, mm_data_width = 8, resources = [], next_addr = 0,
             frozen = True \<rparr>
   \<and> NativePort_set_memory_map
       \<lparr> np_addr_width = 4, np_data_width = 16, np_granularity = 8,
         np_map = Some \<lparr> mm_addr_width = 5, mm_data_width = 8, resources = [],
                           next_addr = 0, frozen = True \<rparr> \<rparr>
       (Is \<lparr> mm_addr_width = 5, mm_data_width = 8, resources = [(''buffer'', 0, 32)],
              next_addr = 32, frozen = False \<rparr>)
     = Inr \<lparr> np_addr_width = 4, np_data_width = 16, np_granularity = 8,
             np_map = Some \<lparr> mm_addr_width = 5, mm_data_width = 8,
                               resources = [(''buffer'', 0, 32)], next_addr = 32,
                               frozen = True \<rparr> \<rparr>"
proof -
  have l: "log2_int 2 True = Inr 1"
    using log2_int_pow2 [of 1 True] by simp
  have a: "NativePort_set_memory_map
       \<lparr> np_addr_width = 4, np_data_width = 16, np_granularity = 8, np_map = None \<rparr>
       (Is \<lparr> mm_addr_width = 5, mm_data_width = 8, resources = [], next_addr = 0,
              frozen = False \<rparr>)
     = Inr \<lparr> np_addr_width = 4, np_data_width = 16, np_granularity = 8,
             np_map = Some \<lparr> mm_addr_width = 5, mm_data_width = 8, resources = [],
                               next_addr = 0, frozen = True \<rparr> \<rparr>"
    by (simp add: NativePort_set_memory_map_def MemoryMap_freeze_def l)
  have b: "NativePort_set_memory_map
       \<lparr> np_addr_width = 4, np_data_width = 16, np_granularity = 8, np_map = None \<rparr>
       (Is \<lparr> mm_addr_width = 5, mm_data_width = 8, resources = [(''buffer'', 0, 32)],
              next_addr = 32, frozen = False \<rparr>)
     = Inr \<lparr> np_addr_width = 4, np_data_width = 16, np_granularity = 8,
             np_map = Some \<lparr> mm_addr_width = 5, mm_data_width = 8,
                               resources = [(''buffer'', 0, 32)], next_addr = 32,
                               frozen = True \<rparr> \<rparr>"
    by (simp add: NativePort_set_memory_map_def MemoryMap_freeze_def l)
  show ?thesis
    using NativePort_attachment_replaces [OF a,
      of "Is \<lparr> mm_addr_width = 5, mm_data_width = 8, resources = [(''buffer'', 0, 32)],
              next_addr = 32, frozen = False \<rparr>"] b
    by simp
qed

section \<open>The namespace of the builder\<close>

lemma example_core_init:
  "Core_init example_env (Is example_config) None PNone = Inr example_core"
  by code_simp

lemma render_filename_distinct:
  "render_filename BuildScript core \<noteq> render_filename ConfigYml core"
proof
  assume "render_filename BuildScript core = render_filename ConfigYml core"
  then have "length (render_filename BuildScript core) = length (render_filename ConfigYml core)"
    by simp
  then show False by simp
qed

lemma Builder_prepare_conflict:
  assumes "name core \<in> namespace b" and "\<not> name_force"
  shows "Builder_prepare env b (Is core) sim name_force = (Inl (name_conflict (name core)), b)"
  using assms by (simp add: Builder_prepare_def name_conflict_def)

lemma Builder_prepare_success:
  assumes "name core \<notin> namespace b \<or> name_force"
  shows "Builder_prepare env b (Is core) sim name_force =
           (Inr \<lparr> script = ''build_'' @ name core,
                   files = [(render_filename BuildScript core, render_content env BuildScript core sim),
                            (render_filename ConfigYml core, render_content env ConfigYml core sim)] \<rparr>,
            b\<lparr>namespace := insert (name core) (namespace b)\<rparr>)"
proof -
  have "''build_'' @ name core @ ''.sh'' \<noteq> name core @ ''_config.yml''"
    using render_filename_distinct [of core] by simp
  then show ?thesis
    using assms by (auto simp: Builder_prepare_def BuildPlan_add_file_def Let_def)
qed

text \<open>
  C3. After a first core has been prepared on a builder, preparing a second core of
  the same name on that builder raises the name conflict without the override and leaves
  the builder as it was; with the override it returns a plan, and the name stays in the
  namespace. A third core of the same name meets the same builder, so it behaves as the
  second did. The namespace after a successful preparation is the one before it with
  the name of the core added.
\<close>

theorem Builder_prepare_same_name:
  assumes first: "Builder_prepare env b0 (Is c1) sim1 force1 = (Inr plan1, b1)"
    and same: "name c2 = name c1" "name c3 = name c1"
  shows "namespace b1 = insert (name c1) (namespace b0)
       \<and> Builder_prepare env b1 (Is c2) sim2 False = (Inl (name_conflict (name c1)), b1)
       \<and> (\<exists>plan2. Builder_prepare env b1 (Is c2) sim2 True = (Inr plan2, b1))
       \<and> Builder_prepare env b1 (Is c3) sim3 False = (Inl (name_conflict (name c1)), b1)
       \<and> (\<exists>plan3. Builder_prepare env b1 (Is c3) sim3 True = (Inr plan3, b1))"
proof -
  have ok: "name c1 \<notin> namespace b0 \<or> force1"
  proof (rule ccontr)
    assume "\<not> (name c1 \<notin> namespace b0 \<or> force1)"
    then have "name c1 \<in> namespace b0" and "\<not> force1" by auto
    from Builder_prepare_conflict [OF this, of env sim1] first show False by simp
  qed
  from first Builder_prepare_success [OF ok, of env sim1]
  have b1: "b1 = b0\<lparr>namespace := insert (name c1) (namespace b0)\<rparr>" by simp
  then have in1: "name c1 \<in> namespace b1" by simp
  have keep: "b1\<lparr>namespace := insert (name c1) (namespace b1)\<rparr> = b1"
    using in1 by (simp add: insert_absorb)
  have "Builder_prepare env b1 (Is c2) sim2 False = (Inl (name_conflict (name c1)), b1)"
    using Builder_prepare_conflict [of c2 b1 False env sim2] in1 same by simp
  moreover have "\<exists>plan2. Builder_prepare env b1 (Is c2) sim2 True = (Inr plan2, b1)"
    using Builder_prepare_success [of c2 b1 True env sim2] keep same by simp
  moreover have "Builder_prepare env b1 (Is c3) sim3 False = (Inl (name_conflict (name c1)), b1)"
    using Builder_prepare_conflict [of c3 b1 False env sim3] in1 same by simp
  moreover have "\<exists>plan3. Builder_prepare env b1 (Is c3) sim3 True = (Inr plan3, b1)"
    using Builder_prepare_success [of c3 b1 True env sim3] keep same by simp
  ultimately show ?thesis using b1 by simp
qed

theorem Builder_prepare_same_name_witness:
  "Builder_prepare example_env Builder_init (Is example_core) False False
     = (Inr \<lparr> script = ''build_dram'',
               files = [(''build_dram.sh'', ''# Automatically generated by LambdaSoC. Do not edit.''),
                        (''dram_config.yml'', ''# Automatically generated by LambdaSoC. Do not edit.'')] \<rparr>,
        \<lparr> namespace = {''dram''} \<rparr>)
   \<and> Builder_prepare example_env \<lparr> namespace = {''dram''} \<rparr> (Is example_core) False False
     = (Inl (name_conflict ''dram''), \<lparr> namespace = {''dram''} \<rparr>)
   \<and> snd (Builder_prepare example_env \<lparr> namespace = {''dram''} \<rparr> (Is example_core) False True)
     = \<lparr> namespace = {''dram''} \<rparr>"
proof -
  have first: "Builder_prepare example_env Builder_init (Is example_core) False False
     = (Inr \<lparr> script = ''build_dram'',
               files = [(''build_dram.sh'', ''# Automatically generated by LambdaSoC. Do not edit.''),
                        (''dram_config.yml'', ''# Automatically generated by LambdaSoC. Do not edit.'')] \<rparr>,
        \<lparr> namespace = {''dram''} \<rparr>)"
    by (simp add: Builder_prepare_def Builder_init_def example_core_def example_env_def
          BuildPlan_add_file_def Let_def)
  from Builder_prepare_same_name [OF first refl refl, of False False]
  show ?thesis
    using first by (auto simp: example_core_def)
qed

section \<open>A build that is not executed\<close>

text \<open>
  C10. \<^verbatim>\<open>Core.build\<close> with \<^verbatim>\<open>do_build=False\<close>, on a core without a control bus and a
  builder that accepts its name, returns the plan that \<^verbatim>\<open>Builder.prepare\<close> made and
  leaves the core as it was, so the getter of the control bus still raises; the builder
  it leaves behind has the name of the core in its namespace, and preparing any other
  core of that name on it, without the override, raises the name conflict, although
  nothing was executed.
\<close>

theorem Core_build_without_execution:
  assumes "priv_ctrl_bus core = None"
    and "name core \<notin> namespace b \<or> name_force"
  shows "\<exists>plan b'.
           Core_build env core (Is b) False build_dir sim name_force
             = (Inr (Plan plan), core, Is b')
         \<and> Builder_prepare env b (Is core) sim name_force = (Inr plan, b')
         \<and> Core_ctrl_bus core = Inl not_ready
         \<and> name core \<in> namespace b'
         \<and> (\<forall>other sim'. name other = name core \<longrightarrow>
                Builder_prepare env b' (Is other) sim' False
                  = (Inl (name_conflict (name core)), b'))"
proof -
  let ?b' = "b\<lparr>namespace := insert (name core) (namespace b)\<rparr>"
  from Builder_prepare_success [OF assms(2), of env sim]
  obtain plan where p: "Builder_prepare env b (Is core) sim name_force = (Inr plan, ?b')"
    by blast
  have "Core_build env core (Is b) False build_dir sim name_force
          = (Inr (Plan plan), core, Is ?b')"
    by (simp add: Core_build_def p)
  moreover have "Core_ctrl_bus core = Inl not_ready"
    using assms(1) by (simp add: Core_ctrl_bus_def not_ready_def)
  moreover have "name core \<in> namespace ?b'" by simp
  moreover have "\<forall>other sim'. name other = name core \<longrightarrow>
                Builder_prepare env ?b' (Is other) sim' False
                  = (Inl (name_conflict (name core)), ?b')"
    using Builder_prepare_conflict [of _ ?b' False env] by auto
  ultimately show ?thesis using p by blast
qed

theorem Core_build_without_execution_witness:
  "Core_build example_env example_core (Is Builder_init) False ''build/litedram'' False False
     = (Inr (Plan \<lparr> script = ''build_dram'',
               files = [(''build_dram.sh'', ''# Automatically generated by LambdaSoC. Do not edit.''),
                        (''dram_config.yml'', ''# Automatically generated by LambdaSoC. Do not edit.'')] \<rparr>),
        example_core, Is \<lparr> namespace = {''dram''} \<rparr>)
   \<and> Core_ctrl_bus example_core = Inl not_ready
   \<and> Builder_prepare example_env \<lparr> namespace = {''dram''} \<rparr>
         (Is (example_core\<lparr>size' := 1\<rparr>)) True False
     = (Inl (name_conflict ''dram''), \<lparr> namespace = {''dram''} \<rparr>)"
proof -
  have a: "priv_ctrl_bus example_core = None" by (simp add: example_core_def)
  have b: "name example_core \<notin> namespace Builder_init \<or> False"
    by (simp add: Builder_init_def)
  have c: "Builder_prepare example_env Builder_init (Is example_core) False False
     = (Inr \<lparr> script = ''build_dram'',
               files = [(''build_dram.sh'', ''# Automatically generated by LambdaSoC. Do not edit.''),
                        (''dram_config.yml'', ''# Automatically generated by LambdaSoC. Do not edit.'')] \<rparr>,
        \<lparr> namespace = {''dram''} \<rparr>)"
    by (simp add: Builder_prepare_def Builder_init_def example_core_def example_env_def
          BuildPlan_add_file_def Let_def)
  from Core_build_without_execution [OF a b, of example_env "''build/litedram''" False]
  obtain plan b' where
    r: "Core_build example_env example_core (Is Builder_init) False ''build/litedram'' False False
          = (Inr (Plan plan), example_core, Is b')"
       "Builder_prepare example_env Builder_init (Is example_core) False False = (Inr plan, b')"
       "Core_ctrl_bus example_core = Inl not_ready"
       "\<forall>other sim'. name other = name example_core \<longrightarrow>
                Builder_prepare example_env b' (Is other) sim' False
                  = (Inl (name_conflict (name example_core)), b')"
    by blast
  from r(2) c have "plan = \<lparr> script = ''build_dram'',
               files = [(''build_dram.sh'', ''# Automatically generated by LambdaSoC. Do not edit.''),
                        (''dram_config.yml'', ''# Automatically generated by LambdaSoC. Do not edit.'')] \<rparr>"
    and "b' = \<lparr> namespace = {''dram''} \<rparr>" by simp_all
  with r show ?thesis by (simp add: example_core_def)
qed

section \<open>Reading the register listing\<close>

lemma log2_int_False_pos:
  assumes "2 \<le> n"
  shows "\<exists>w. log2_int n False = Inr w \<and> 1 \<le> w"
proof -
  have "0 < nat (abs (n - 1))" using assms by simp
  from bit_length_pos [OF this] show ?thesis
    using assms by (simp add: log2_int_def Let_def)
qed

lemma add_resource_Inr:
  assumes "MemoryMap_add_resource m nm sz (Some a) True = Inr m'"
  shows "resources m' = resources m @ [(nm, a, a + sz)]"
    and "mm_data_width m' = mm_data_width m"
    and "1 \<le> mm_addr_width m \<Longrightarrow> 1 \<le> mm_addr_width m'"
proof -
  from assms obtain w where
    w: "(if a + sz > 2 ^ nat (mm_addr_width m) then log2_int (a + sz) False
         else Inr (mm_addr_width m)) = Inr w"
    and m': "m' = m\<lparr> mm_addr_width := w, resources := resources m @ [(nm, a, a + sz)],
                      next_addr := a + sz \<rparr>"
    by (auto simp: MemoryMap_add_resource_def Let_def split: if_splits sum.splits)
  show "resources m' = resources m @ [(nm, a, a + sz)]" by (simp add: m')
  show "mm_data_width m' = mm_data_width m" by (simp add: m')
  show "1 \<le> mm_addr_width m'" if "1 \<le> mm_addr_width m"
  proof (cases "a + sz > 2 ^ nat (mm_addr_width m)")
    case True
    have "(1::int) \<le> 2 ^ nat (mm_addr_width m)" by simp
    with True have "2 \<le> a + sz" by linarith
    from log2_int_False_pos [OF this] w True show ?thesis by (auto simp: m')
  next
    case False
    with w that show ?thesis by (simp add: m')
  qed
qed


lemma populate_rows_Cons_Inr:
  assumes "populate_rows cdw m (row # rows) = Inr m'"
  shows "(\<not> (row \<noteq> [] \<and> hd row = ''csr_register'') \<and> populate_rows cdw m rows = Inr m')
       \<or> (\<exists>nm addr sz attrs a n m1.
             row = [''csr_register'', nm, addr, sz, attrs]
           \<and> py_int addr 16 = Some a \<and> py_int sz 10 = Some n
           \<and> MemoryMap_add_resource m nm (n * cdw div mm_data_width m) (Some a) True = Inr m1
           \<and> populate_rows cdw m1 rows = Inr m')"
proof (cases "row \<noteq> [] \<and> hd row = ''csr_register''")
  case False
  with assms show ?thesis
    by (auto split: if_splits list.splits option.splits sum.splits)
next
  case True
  then obtain fs where row: "row = ''csr_register'' # fs" by (cases row) auto
  with assms show ?thesis
    by (auto split: if_splits list.splits option.splits sum.splits)
qed

lemma populate_rows_Inr:
  assumes "populate_rows cdw m rows = Inr m'" and "mm_data_width m = mdw"
  shows "mm_data_width m' = mdw
       \<and> (1 \<le> mm_addr_width m \<longrightarrow> 1 \<le> mm_addr_width m')
       \<and> map Some (resources m')
           = map Some (resources m)
             @ map (\<lambda>row. case (py_int (row ! 2) 16, py_int (row ! 3) 10) of
                             (Some a, Some n) \<Rightarrow> Some (row ! 1, a, a + n * cdw div mdw)
                           | _ \<Rightarrow> None)
                 (register_rows rows)"
  using assms
proof (induction rows arbitrary: m)
  case Nil
  then show ?case by (simp add: register_rows_def)
next
  case (Cons row rows)
  from populate_rows_Cons_Inr [OF Cons.prems(1)] show ?case
  proof (elim disjE conjE exE)
    assume "\<not> (row \<noteq> [] \<and> hd row = ''csr_register'')"
      and "populate_rows cdw m rows = Inr m'"
    with Cons.IH [of m] Cons.prems(2) show ?thesis by (simp add: register_rows_def)
  next
    fix nm addr sz attrs a n m1
    assume row: "row = [''csr_register'', nm, addr, sz, attrs]"
      and a: "py_int addr 16 = Some a" and n: "py_int sz 10 = Some n"
      and add: "MemoryMap_add_resource m nm (n * cdw div mm_data_width m) (Some a) True = Inr m1"
      and rest: "populate_rows cdw m1 rows = Inr m'"
    note r = add_resource_Inr [OF add]
    have "mm_data_width m1 = mdw" using r(2) Cons.prems(2) by simp
    from Cons.IH [OF rest this] r(3) Cons.prems(2) show ?thesis
      by (simp add: register_rows_def row a n r(1))
  qed
qed


lemma MemoryMap_init_1_8:
  "MemoryMap_init 1 8
     = Inr \<lparr> mm_addr_width = 1, mm_data_width = 8, resources = [], next_addr = 0,
             frozen = False \<rparr>"
  by (simp add: MemoryMap_init_def)

lemma Interface_attach_after_init:
  assumes "Interface_init (mm_addr_width cm - g) dw (mm_data_width cm) = Inr bus"
    and "log2_int (dw div mm_data_width cm) True = Inr g"
    and "1 \<le> mm_addr_width cm"
  shows "Interface_set_memory_map bus (Is cm)
           = Inr \<lparr> wb_addr_width = mm_addr_width cm - g, wb_data_width = dw,
                   wb_granularity = mm_data_width cm,
                   wb_map = Some (cm\<lparr>frozen := True\<rparr>) \<rparr>"
proof -
  from assms(1) have bus: "bus = \<lparr> wb_addr_width = mm_addr_width cm - g, wb_data_width = dw,
                   wb_granularity = mm_data_width cm, wb_map = None \<rparr>"
    by (auto simp: Interface_init_def split: if_splits)
  show ?thesis
    using assms(2,3) by (simp add: Interface_set_memory_map_def bus MemoryMap_freeze_def)
qed

lemma Core_populate_ctrl_map_cases:
  assumes "Core_populate_ctrl_map env core (Is products) = (r, core')"
  shows "(\<exists>e. r = Inl e \<and> core' = core)
       \<or> (\<exists>listing ctrl_map g.
             r = Inr ()
           \<and> products (name core @ ''_csr.csv'') = Some listing
           \<and> populate_rows (csr_data_width (config core))
                 \<lparr> mm_addr_width = 1, mm_data_width = 8, resources = [], next_addr = 0,
                   frozen = False \<rparr>
                 (csv_reader env (split_on CHR 0x0A listing)) = Inr ctrl_map
           \<and> log2_int (csr_data_width (config core) div 8) True = Inr g
           \<and> core' = core\<lparr>priv_ctrl_bus :=
                 Some \<lparr> wb_addr_width = mm_addr_width ctrl_map - g,
                        wb_data_width = csr_data_width (config core),
                        wb_granularity = 8,
                        wb_map = Some (ctrl_map\<lparr>frozen := True\<rparr>) \<rparr>\<rparr>)"
proof (cases "products (name core @ ''_csr.csv'')")
  case None
  with assms show ?thesis
    by (auto simp: Core_populate_ctrl_map_def MemoryMap_init_1_8 BuildProducts_get_def)
next
  case (Some listing)
  let ?m0 = "\<lparr> mm_addr_width = 1, mm_data_width = 8, resources = [], next_addr = 0,
                frozen = False \<rparr>"
  let ?cdw = "csr_data_width (config core)"
  show ?thesis
  proof (cases "populate_rows ?cdw ?m0 (csv_reader env (split_on CHR 0x0A listing))")
    case (Inl e)
    with assms Some show ?thesis
      by (auto simp: Core_populate_ctrl_map_def MemoryMap_init_1_8 BuildProducts_get_def)
  next
    case (Inr cm)
    from populate_rows_Inr [OF Inr, of 8]
    have dw: "mm_data_width cm = 8" and aw: "1 \<le> mm_addr_width cm" by simp_all
    show ?thesis
    proof (cases "log2_int (?cdw div 8) True")
      case (Inl e)
      with assms Some \<open>populate_rows _ _ _ = Inr cm\<close> dw show ?thesis
        by (auto simp: Core_populate_ctrl_map_def MemoryMap_init_1_8 BuildProducts_get_def)
    next
      case g: (Inr g)
      show ?thesis
      proof (cases "Interface_init (mm_addr_width cm - g) ?cdw (mm_data_width cm)")
        case (Inl e)
        with assms Some \<open>populate_rows _ _ _ = Inr cm\<close> dw g show ?thesis
          by (auto simp: Core_populate_ctrl_map_def MemoryMap_init_1_8 BuildProducts_get_def)
      next
        case bus: (Inr bus)
        from g dw have g': "log2_int (?cdw div mm_data_width cm) True = Inr g" by simp
        note att = Interface_attach_after_init [OF bus g' aw]
        from assms Some \<open>populate_rows _ _ _ = Inr cm\<close> dw g bus att show ?thesis
          by (auto simp: Core_populate_ctrl_map_def MemoryMap_init_1_8 BuildProducts_get_def)
      qed
    qed
  qed
qed


















section \<open>The control bus of a core\<close>

lemma Core_init_no_ctrl_bus:
  assumes "Core_init env cfg pins nm = Inr core"
  shows "priv_ctrl_bus core = None"
  using assms
  by (auto simp: Core_init_def Let_def split: pyarg.splits if_splits sum.splits)

text \<open>
  C1. On a core as \<^verbatim>\<open>Core.__init__\<close> returns it, the getter of the control bus raises
  the \<^verbatim>\<open>AttributeError\<close> that the bus is not populated. After a call of \<^verbatim>\<open>Core.build\<close> on
  it: if the call was to execute the build and returned, it returned the products, the
  register listing among them was read, and the getter returns the bus whose memory map
  is the frozen map that the rows of the listing populated; in every other case (the
  build was not to be executed, or the call raised) the core is as it was and the getter
  raises as before.
\<close>

theorem ctrl_bus_ready_after_build:
  assumes "Core_init env cfg pins nm = Inr core"
    and "Core_build env core builder_arg do_build build_dir sim name_force = (r, core', builder')"
  shows "Core_ctrl_bus core = Inl not_ready
       \<and> (if do_build \<and> \<not> isl r then
            \<exists>products listing ctrl_map bus.
                r = Inr (Products products)
              \<and> products (name core @ ''_csr.csv'') = Some listing
              \<and> populate_rows (csr_data_width (config core))
                    \<lparr> mm_addr_width = 1, mm_data_width = 8, resources = [], next_addr = 0,
                      frozen = False \<rparr>
                    (csv_reader env (split_on CHR 0x0A listing)) = Inr ctrl_map
              \<and> Core_ctrl_bus core' = Inr bus
              \<and> wb_map bus = Some (ctrl_map\<lparr>frozen := True\<rparr>)
          else core' = core \<and> Core_ctrl_bus core' = Inl not_ready)"
proof -
  have none: "priv_ctrl_bus core = None" by (rule Core_init_no_ctrl_bus [OF assms(1)])
  then have nr: "Core_ctrl_bus core = Inl not_ready"
    by (simp add: Core_ctrl_bus_def not_ready_def)
  show ?thesis
  proof (cases builder_arg)
    case Other
    with assms(2) nr show ?thesis by (auto simp: Core_build_def)
  next
    case (Is b)
    obtain pr b' where prep: "Builder_prepare env b (Is core) sim name_force = (pr, b')"
      by (cases "Builder_prepare env b (Is core) sim name_force")
    show ?thesis
    proof (cases pr)
      case (Inl e)
      with assms(2) nr Is prep show ?thesis by (auto simp: Core_build_def)
    next
      case (Inr plan)
      show ?thesis
      proof (cases do_build)
        case False
        with assms(2) nr Is prep Inr show ?thesis by (auto simp: Core_build_def)
      next
        case True
        show ?thesis
        proof (cases "execute_local env plan build_dir")
          case (Inl e)
          with assms(2) nr Is prep Inr True show ?thesis by (auto simp: Core_build_def)
        next
          case ex: (Inr products)
          obtain pr2 c2 where pop: "Core_populate_ctrl_map env core (Is products) = (pr2, c2)"
            by (cases "Core_populate_ctrl_map env core (Is products)")
          from assms(2) Is prep Inr True ex pop
          have res: "core' = c2"
            "r = (case pr2 of Inl e \<Rightarrow> Inl e | Inr u \<Rightarrow> Inr (Products products))"
            by (auto simp: Core_build_def split: sum.splits)
          from Core_populate_ctrl_map_cases [OF pop] show ?thesis
          proof (elim disjE exE conjE)
            fix e assume "pr2 = Inl e" "c2 = core"
            with res nr True show ?thesis by simp
          next
            fix listing ctrl_map g
            assume "pr2 = Inr ()"
              and "products (name core @ ''_csr.csv'') = Some listing"
              and "populate_rows (csr_data_width (config core))
                    \<lparr> mm_addr_width = 1, mm_data_width = 8, resources = [], next_addr = 0,
                      frozen = False \<rparr>
                    (csv_reader env (split_on CHR 0x0A listing)) = Inr ctrl_map"
              and "c2 = core\<lparr>priv_ctrl_bus :=
                 Some \<lparr> wb_addr_width = mm_addr_width ctrl_map - g,
                        wb_data_width = csr_data_width (config core),
                        wb_granularity = 8,
                        wb_map = Some (ctrl_map\<lparr>frozen := True\<rparr>) \<rparr>\<rparr>"
            with res nr True show ?thesis by (simp add: Core_ctrl_bus_def)
          qed
        qed
      qed
    qed
  qed
qed

theorem ctrl_bus_ready_after_build_witness:
  "Core_init example_env (Is example_config) None PNone = Inr example_core
   \<and> Core_ctrl_bus example_core = Inl not_ready
   \<and> Core_ctrl_bus
       (fst (snd (Core_build example_env example_core (Is Builder_init) True
                    ''build/litedram'' False False)))
     = Inr \<lparr> wb_addr_width = 3, wb_data_width = 32, wb_granularity = 8,
             wb_map = Some \<lparr> mm_addr_width = 5, mm_data_width = 8,
                               resources = [(''ctrl_status'', 16, 20)], next_addr = 20,
                               frozen = True \<rparr> \<rparr>
   \<and> Core_ctrl_bus
       (fst (snd (Core_build example_env example_core (Is Builder_init) False
                    ''build/litedram'' False False)))
     = Inl not_ready"
proof -
  have b1: "Core_ctrl_bus
       (fst (snd (Core_build example_env example_core (Is Builder_init) True
                    ''build/litedram'' False False)))
     = Inr \<lparr> wb_addr_width = 3, wb_data_width = 32, wb_granularity = 8,
             wb_map = Some \<lparr> mm_addr_width = 5, mm_data_width = 8,
                               resources = [(''ctrl_status'', 16, 20)], next_addr = 20,
                               frozen = True \<rparr> \<rparr>"
    by code_simp
  have b2: "Core_build example_env example_core (Is Builder_init) False
                    ''build/litedram'' False False
            = (fst (Core_build example_env example_core (Is Builder_init) False
                    ''build/litedram'' False False),
               fst (snd (Core_build example_env example_core (Is Builder_init) False
                    ''build/litedram'' False False)),
               snd (snd (Core_build example_env example_core (Is Builder_init) False
                    ''build/litedram'' False False)))"
    by simp
  from ctrl_bus_ready_after_build [OF example_core_init b2] b1 example_core_init
  show ?thesis by simp
qed

section \<open>The capacity of a core\<close>

text \<open>
  C4, amended. For every configuration and every module description the module table
  returns for it, whenever \<^verbatim>\<open>Core.__init__\<close> returns a core, the core keeps the
  configuration and its size in bytes is the number of byte groups times two to the
  power of the bank, row and column bits of the module, exactly.
\<close>

theorem Core_init_size:
  assumes "Core_init env (Is cfg) pins nm = Inr core"
  shows "\<exists>module.
           get_module env cfg = Inr module
         \<and> config core = cfg
         \<and> size' core
             = module_bytes cfg
               * 2 ^ (bankbits (geom_settings module) + rowbits (geom_settings module)
                      + colbits (geom_settings module))"
  using assms
  by (auto simp: Core_init_def Let_def split: if_splits sum.splits)

text \<open>
  The scenario of the specification: one byte group, one rank and a geometry of 3, 13
  and 10 bits give a core of 67,108,864 bytes.
\<close>

theorem Core_init_size_witness:
  "Core_init example_env (Is example_config) None PNone = Inr example_core
   \<and> get_module example_env example_config = Inr example_module
   \<and> size' example_core = 1 * 2 ^ (3 + 13 + 10)
   \<and> size' example_core = 67108864"
proof -
  have g: "get_module example_env example_config = Inr example_module" by code_simp
  from Core_init_size [OF example_core_init] g
  have "size' example_core = 1 * 2 ^ (3 + 13 + 10)"
    by (simp add: example_module_def example_config_def)
  moreover have "size' example_core = 67108864" by (simp add: example_core_def)
  ultimately show ?thesis using example_core_init g by simp
qed

text \<open>
  C4, as stated, fails: the construction does not succeed for every valid
  configuration. A configuration of three ranks is valid, the module table returns a
  module for it, and \<^verbatim>\<open>Core.__init__\<close> raises, since \<^verbatim>\<open>log2_int\<close> wants a power of two.
\<close>

theorem Core_init_three_ranks_counterexample:
  "Config_init (PStr ''DDR3'') (PStr ''MT41K64M16'') (PInt 1) (PInt 3) (PInt 100000000)
     (PInt 70000000) (PStr ''litedram_input'') (PStr ''litedram_user'') (PInt 128) (PInt 16)
     (PInt 32)
     = Inr (example_config\<lparr>module_ranks := 3\<rparr>)
   \<and> get_module example_env (example_config\<lparr>module_ranks := 3\<rparr>) = Inr example_module
   \<and> Core_init example_env (Is (example_config\<lparr>module_ranks := 3\<rparr>)) None (PStr ''dram'')
     = Inl (ValueError ''{} is not a power of 2'' [PInt 3])"
  by code_simp

lemma user_data_width_log2:
  assumes "udw \<in> {8, 16, 32, 64, 128 :: int}"
  shows "\<exists>kw. log2_int (udw div 8) True = Inr (int kw) \<and> kw \<le> 4
            \<and> udw AND (udw - 1) = 0 \<and> 0 < udw"
proof -
  have l: "log2_int 1 True = Inr (int 0)" "log2_int 2 True = Inr (int 1)"
    "log2_int 4 True = Inr (int 2)" "log2_int 8 True = Inr (int 3)"
    "log2_int 16 True = Inr (int 4)"
    using log2_int_pow2 [of 0 True] log2_int_pow2 [of 1 True] log2_int_pow2 [of 2 True]
      log2_int_pow2 [of 3 True] log2_int_pow2 [of 4 True]
    by simp_all
  from assms consider "udw = 8" | "udw = 16" | "udw = 32" | "udw = 64" | "udw = 128" by auto
  then show ?thesis
  proof cases
    case 1 then show ?thesis using l(1) by (intro exI [of _ 0]) simp
  next
    case 2 then show ?thesis using l(2) by (intro exI [of _ 1]) simp
  next
    case 3 then show ?thesis using l(3) by (intro exI [of _ 2]) simp
  next
    case 4 then show ?thesis using l(4) by (intro exI [of _ 3]) simp
  next
    case 5 then show ?thesis using l(5) by (intro exI [of _ 4]) simp
  qed
qed

text \<open>
  The construction does succeed on the designs it is meant for: a name that is given,
  a module whose bank count is a power of two, a rank count that is a power of two, a
  user data width of the configuration's domain, more than four address bits, and a
  capacity that the address space of the user port holds.
\<close>

lemma Core_init_succeeds:
  assumes nm: "nm = PStr n" "n \<noteq> []"
    and md: "get_module env cfg = Inr module"
    and kb: "nbanks module = 2 ^ kb"
    and kr: "module_ranks cfg = 2 ^ kr"
    and udw: "user_data_width cfg \<in> {8, 16, 32, 64, 128}"
    and aw: "4 < int (rowbits (geom_settings module)) + int (colbits (geom_settings module))
                 + int kb + max (int kr) 1"
    and mb: "0 \<le> module_bytes cfg"
    and fit: "module_bytes cfg
                * 2 ^ (bankbits (geom_settings module) + rowbits (geom_settings module)
                       + colbits (geom_settings module))
              \<le> 2 ^ nat (int (rowbits (geom_settings module))
                          + int (colbits (geom_settings module)) + int kb + max (int kr) 1)"
  shows "\<exists>core. Core_init env (Is cfg) pins nm = Inr core"
proof -
  from user_data_width_log2 [OF udw] obtain kw where
    kw: "log2_int (user_data_width cfg div 8) True = Inr (int kw)" "kw \<le> 4"
        "user_data_width cfg AND (user_data_width cfg - 1) = 0" "0 < user_data_width cfg"
    by blast
  have lb: "log2_int (nbanks module) True = Inr (int kb)" by (simp add: kb log2_int_pow2)
  have lr: "log2_int (module_ranks cfg) True = Inr (int kr)" by (simp add: kr log2_int_pow2)
  let ?uaw = "int (rowbits (geom_settings module)) + int (colbits (geom_settings module))
                + int kb + max (int kr) 1"
  have pos: "0 < ?uaw - int kw" "0 < ?uaw" using aw kw(2) by linarith+
  have sz: "0 \<le> module_bytes cfg
                * 2 ^ (bankbits (geom_settings module) + rowbits (geom_settings module)
                       + colbits (geom_settings module))"
    using mb by simp
  show ?thesis
    using nm md lb lr kw pos sz fit
    by (simp add: Core_init_def Let_def NativePort_init_def MemoryMap_init_def
          MemoryMap_add_resource_def overlaps_def NativePort_set_memory_map_def)
qed

end
